theory Spec2Isabelle
  imports Complex_Main
begin

section \<open>Detected-plane mesh synchronisation (class XrExperience of src/index\_6.ts)\<close>

text \<open>
  The embedding follows \<^verbatim>\<open>createPlaneMeshesFromXrPlane\<close> and \<^verbatim>\<open>initPolygon\<close>.
  JavaScript objects (meshes, materials) live in an explicit store: a reference is an
  index into the list of all objects of that class allocated so far, \<^verbatim>\<open>new\<close> appends.
  A JavaScript number is a rational here; the code never computes with coordinates, it
  only copies them.
\<close>

subsection \<open>Engine value types\<close>

datatype Vector3 = Vector3 (v3x: rat) (v3y: rat) (v3z: rat)

datatype Vector2 = Vector2 (v2x: rat) (v2y: rat)

datatype Quaternion = Quaternion rat rat rat rat

datatype Color3 = Color3 rat rat rat

datatype Matrix = Matrix "rat list"

datatype error = TypeError

text \<open>
  \<^verbatim>\<open>Matrix.decompose(scale, rotation, translation)\<close> belongs to the 3-D engine. It is a
  parameter \<open>dec\<close> of the model, giving the three values written to its arguments.
\<close>

type_synonym decompose = "Matrix \<Rightarrow> Vector3 \<times> Quaternion \<times> Vector3"

subsection \<open>Objects\<close>

text \<open>
  An entry of the array \<open>polygonDefinition\<close>: a hole of the sparse array (no element at
  that index), the value null or undefined, or a point.
\<close>

datatype entry = Hole | Nullish | Point Vector3

text \<open>
  \<^verbatim>\<open>IWebXRPlane\<close>: \<open>orientation\<close> is \<^verbatim>\<open>plane.xrPlane.orientation\<close>; \<open>plane_id\<close> is
  \<^verbatim>\<open>plane.id\<close>.
\<close>

record IWebXRPlane =
  plane_id :: nat
  polygonDefinition :: "entry list"
  transformationMatrix :: Matrix
  orientation :: string

text \<open>
  The geometry of a mesh (its vertex data), given by what it was made from: \<open>contours\<close>
  is the contour handed to \<^verbatim>\<open>new PolygonMeshBuilder\<close>, \<open>updatable\<close> and \<open>depth\<close> are the
  arguments of \<^verbatim>\<open>build\<close>, \<open>normalsCreated\<close> records \<^verbatim>\<open>createNormals\<close>. The
  triangulation itself is the engine's.
\<close>

record Geometry =
  contours :: "Vector2 list"
  updatable :: bool
  depth :: rat
  normalsCreated :: bool

text \<open>
  A mesh as \<^verbatim>\<open>initPolygon\<close> configures it. \<open>name\<close> is the first argument of
  \<^verbatim>\<open>new PolygonMeshBuilder\<close>. \<open>geometry\<close> is \<open>None\<close> once the engine has released
  it. \<open>material\<close> is a reference into the material store.
\<close>

record Mesh =
  name :: string
  geometry :: "Geometry option"
  material :: "nat option"
  rotationQuaternion :: "Quaternion option"
  scaling :: Vector3
  position :: Vector3
  checkCollisions :: bool
  receiveShadows :: bool
  isDisposed :: bool

record StandardMaterial =
  materialName :: string
  alpha :: rat
  diffuseColor :: Color3
  materialDisposed :: bool

text \<open>
  The part of \<^verbatim>\<open>XrExperience\<close> the plane handlers touch: the array \<^verbatim>\<open>_planes\<close>
  (a hole of the sparse array is \<open>None\<close>), the variable \<^verbatim>\<open>mat\<close> declared once in
  \<^verbatim>\<open>createPlaneMeshesFromXrPlane\<close> and captured by all handlers, and the two stores.
\<close>

record XrExperience =
  planes :: "nat option list"
  mat :: "nat option"
  meshes :: "Mesh list"
  materials :: "StandardMaterial list"

definition initial :: XrExperience where
  "initial = \<lparr>planes = [], mat = None, meshes = [], materials = []\<rparr>"

subsection \<open>JavaScript arrays\<close>

definition array_get :: "'a option list \<Rightarrow> nat \<Rightarrow> 'a option" where
  \<comment> \<open>\<^verbatim>\<open>a[i]\<close>: undefined beyond the length and at a hole.\<close>
  "array_get a i = (if i < length a then a ! i else None)"

definition array_set :: "'a option list \<Rightarrow> nat \<Rightarrow> 'a \<Rightarrow> 'a option list" where
  \<comment> \<open>\<^verbatim>\<open>a[i] = v\<close>: writing beyond the length extends the array with holes.\<close>
  "array_set a i v =
     (if i < length a then a[i := Some v]
      else a @ replicate (i - length a) None @ [Some v])"

definition pop :: "'a option list \<Rightarrow> 'a option \<times> 'a option list" where
  \<comment> \<open>\<^verbatim>\<open>a.pop()\<close>: undefined on the empty array, else the last entry, removed.\<close>
  "pop a = (if a = [] then (None, []) else (last a, butlast a))"

function pop_while :: "'a option list \<Rightarrow> 'a option list" where
  \<comment> \<open>\<^verbatim>\<open>while (a.pop());\<close>: stops at the first popped value that is falsy.\<close>
  "pop_while a =
     (case pop a of
        (None, a') \<Rightarrow> a'
      | (Some v, a') \<Rightarrow> pop_while a')"
  by pat_completeness auto
termination
  by (relation "measure length") (auto simp: pop_def split: if_splits)

declare pop_while.simps [simp del]

subsection \<open>The outline array\<close>

definition entry_at :: "entry list \<Rightarrow> nat \<Rightarrow> entry" where
  \<comment> \<open>The value \<^verbatim>\<open>a[i]\<close>: undefined beyond the length and at a hole.\<close>
  "entry_at a i =
     (if i < length a then (case a ! i of Hole \<Rightarrow> Nullish | e \<Rightarrow> e) else Nullish)"

definition push_first :: "entry list \<Rightarrow> entry list" where
  \<comment> \<open>\<^verbatim>\<open>a.push(a[0])\<close>\<close>
  "push_first a = a @ [entry_at a 0]"

definition some_falsy :: "entry list \<Rightarrow> bool" where
  \<comment> \<open>\<^verbatim>\<open>a.some(p => !p)\<close>: the callback is not called at a hole.\<close>
  "some_falsy a = list_ex (\<lambda>e. e = Nullish) a"

fun toVector2 :: "entry list \<Rightarrow> error + Vector2 option list" where
  \<comment> \<open>\<^verbatim>\<open>a.map((p) => new Vector2(p.x, p.z))\<close>: a hole stays a hole (\<open>None\<close>); reading
     \<^verbatim>\<open>.x\<close> of null or undefined throws.\<close>
  "toVector2 [] = Inr []"
| "toVector2 (Hole # ps) =
     (case toVector2 ps of
        Inl e \<Rightarrow> Inl e
      | Inr vs \<Rightarrow> Inr (None # vs))"
| "toVector2 (Nullish # ps) = Inl TypeError"
| "toVector2 (Point p # ps) =
     (case toVector2 ps of
        Inl e \<Rightarrow> Inl e
      | Inr vs \<Rightarrow> Inr (Some (Vector2 (v3x p) (v3z p)) # vs))"

definition newPolygonMeshBuilder :: "Vector2 option list \<Rightarrow> error + Vector2 list" where
  \<comment> \<open>The engine's constructor reads \<^verbatim>\<open>.x\<close> and \<^verbatim>\<open>.y\<close> of every element of the contour
     in a \<^verbatim>\<open>for...of\<close> loop, which yields undefined at a hole: it throws there.\<close>
  "newPolygonMeshBuilder vs =
     (case those vs of
        None \<Rightarrow> Inl TypeError
      | Some pts \<Rightarrow> Inr pts)"

subsection \<open>Disposal\<close>

text \<open>
  \<^verbatim>\<open>mesh.dispose(doNotRecurse, disposeMaterialAndTextures)\<close> of the engine: the geometry
  of the mesh is released and the mesh is marked disposed; it keeps its reference to the
  material, and the material is released too only when the second argument is true. The
  engine's default for an omitted second argument is false, so \<^verbatim>\<open>mesh.dispose()\<close> is
  \<open>dispose r False False\<close>. The plane meshes have no children.
\<close>

definition dispose :: "nat \<Rightarrow> bool \<Rightarrow> bool \<Rightarrow> XrExperience \<Rightarrow> XrExperience" where
  "dispose r doNotRecurse disposeMaterialAndTextures st =
     (let st1 = st\<lparr>meshes :=
                  (meshes st)[r := (meshes st ! r)\<lparr>geometry := None, isDisposed := True\<rparr>]\<rparr>
      in if disposeMaterialAndTextures
         then (case material (meshes st ! r) of
                 None \<Rightarrow> st1
               | Some m \<Rightarrow>
                   st1\<lparr>materials :=
                     (materials st1)[m := (materials st1 ! m)\<lparr>materialDisposed := True\<rparr>]\<rparr>)
         else st1)"

subsection \<open>initPolygon\<close>

text \<open>
  Returns the thrown error or the reference of the new mesh, the plane record as the call
  leaves it, and the state as the call leaves it.
\<close>

definition buildPolygon :: "decompose \<Rightarrow> IWebXRPlane \<Rightarrow> Vector2 list \<Rightarrow> nat option \<Rightarrow> Mesh" where
  \<comment> \<open>The mesh \<^verbatim>\<open>polygon\<close> between its construction and its registration.\<close>
  "buildPolygon dec plane vs m =
     (case dec (transformationMatrix plane) of
        (s, q, t) \<Rightarrow>
          \<lparr>name = orientation plane,
           geometry = Some \<lparr>contours = vs, updatable = False, depth = 1 / 100,
                            normalsCreated = True\<rparr>,
           material = m, rotationQuaternion = Some q, scaling = s, position = t,
           checkCollisions = True, receiveShadows = True, isDisposed = False\<rparr>)"

definition initPolygon ::
  "decompose \<Rightarrow> IWebXRPlane \<Rightarrow> nat option \<Rightarrow> XrExperience
     \<Rightarrow> (error + nat) \<times> IWebXRPlane \<times> XrExperience" where
  "initPolygon dec plane m st =
     (let plane' = plane\<lparr>polygonDefinition := push_first (polygonDefinition plane)\<rparr>
      in case toVector2 (polygonDefinition plane') of
           Inl e \<Rightarrow> (Inl e, plane', st)
         | Inr vs \<Rightarrow>
             (case newPolygonMeshBuilder vs of
                Inl e \<Rightarrow> (Inl e, plane', st)
              | Inr pts \<Rightarrow>
                  (let polygon = buildPolygon dec plane' pts m;
                       r = length (meshes st)
                   in (Inr r, plane',
                       st\<lparr>meshes := meshes st @ [polygon],
                          planes := array_set (planes st) (plane_id plane') r\<rparr>))))"

subsection \<open>The handlers\<close>

text \<open>
  A handler returns the error it threw, if any, and the state it leaves behind. The second
  argument of \<open>onPlaneAdded\<close> is the value \<^verbatim>\<open>Color3.Random()\<close> returned.
\<close>

definition onPlaneAdded ::
  "decompose \<Rightarrow> IWebXRPlane \<Rightarrow> Color3 \<Rightarrow> XrExperience \<Rightarrow> error option \<times> XrExperience" where
  "onPlaneAdded dec plane c st =
     (let m = length (materials st);
          st1 = st\<lparr>materials := materials st @
                      [\<lparr>materialName = ''mat'', alpha = 35 / 100, diffuseColor = c,
                        materialDisposed = False\<rparr>],
                   mat := Some m\<rparr>
      in case initPolygon dec plane (Some m) st1 of
           (Inl e, _, st2) \<Rightarrow> (Some e, st2)
         | (Inr _, _, st2) \<Rightarrow> (None, st2))"

definition onPlaneUpdated ::
  "decompose \<Rightarrow> IWebXRPlane \<Rightarrow> XrExperience \<Rightarrow> error option \<times> XrExperience" where
  "onPlaneUpdated dec plane st =
     (case array_get (planes st) (plane_id plane) of
        None \<Rightarrow> (Some TypeError, st)
      | Some r \<Rightarrow>
          let st1 = (case material (meshes st ! r) of
                       None \<Rightarrow> st
                     | Some m \<Rightarrow> dispose r False False (st\<lparr>mat := Some m\<rparr>))
          in if some_falsy (polygonDefinition plane) then (None, st1)
             else (case initPolygon dec plane (mat st1) st1 of
                     (Inl e, _, st2) \<Rightarrow> (Some e, st2)
                   | (Inr _, _, st2) \<Rightarrow> (None, st2)))"

definition onPlaneRemoved ::
  "IWebXRPlane option \<Rightarrow> XrExperience \<Rightarrow> error option \<times> XrExperience" where
  "onPlaneRemoved plane st =
     (case plane of
        None \<Rightarrow> (None, st)
      | Some p \<Rightarrow>
          (case array_get (planes st) (plane_id p) of
             None \<Rightarrow> (None, st)
           | Some r \<Rightarrow> (None, dispose r False False st)))"

definition forEach_dispose :: "nat option list \<Rightarrow> XrExperience \<Rightarrow> XrExperience" where
  \<comment> \<open>\<^verbatim>\<open>this._planes.forEach((plane) => plane.dispose())\<close>: holes are skipped.\<close>
  "forEach_dispose a st =
     fold (\<lambda>slot s. case slot of None \<Rightarrow> s | Some r \<Rightarrow> dispose r False False s) a st"

definition onXRSessionInit :: "XrExperience \<Rightarrow> error option \<times> XrExperience" where
  "onXRSessionInit st =
     (let st1 = forEach_dispose (planes st) st
      in (None, st1\<lparr>planes := pop_while (planes st1)\<rparr>))"

subsection \<open>Notifications\<close>

datatype event =
    PlaneAdded IWebXRPlane Color3
  | PlaneUpdated IWebXRPlane
  | PlaneRemoved "IWebXRPlane option"
  | XRSessionInit

fun step :: "decompose \<Rightarrow> event \<Rightarrow> XrExperience \<Rightarrow> error option \<times> XrExperience" where
  "step dec (PlaneAdded p c) st = onPlaneAdded dec p c st"
| "step dec (PlaneUpdated p) st = onPlaneUpdated dec p st"
| "step dec (PlaneRemoved p) st = onPlaneRemoved p st"
| "step dec XRSessionInit st = onXRSessionInit st"

text \<open>
  Each notification is delivered on its own: an error thrown by one handler ends that
  handler, and the next notification finds the state the handler left.
\<close>

fun run :: "decompose \<Rightarrow> event list \<Rightarrow> XrExperience \<Rightarrow> XrExperience" where
  "run dec [] st = st"
| "run dec (e # es) st = run dec es (snd (step dec e st))"

subsection \<open>Sample inputs\<close>

definition dec0 :: decompose where
  "dec0 M = (Vector3 1 1 1, Quaternion 0 0 0 1, Vector3 0 0 0)"

definition mkPlane :: "nat \<Rightarrow> entry list \<Rightarrow> IWebXRPlane" where
  "mkPlane i ps =
     \<lparr>plane_id = i, polygonDefinition = ps, transformationMatrix = Matrix [],
      orientation = ''horizontal''\<rparr>"

definition triangle :: "entry list" where
  "triangle = [Point (Vector3 0 0 0), Point (Vector3 1 0 0), Point (Vector3 0 0 1)]"

definition twoPoints :: "entry list" where
  "twoPoints = [Point (Vector3 0 0 0), Point (Vector3 1 0 0)]"

definition stale :: "entry list" where
  \<comment> \<open>The second entry is the value undefined.\<close>
  "stale = [Point (Vector3 0 0 0), Nullish, Point (Vector3 0 0 1)]"

definition sparse :: "entry list" where
  \<comment> \<open>The second entry is a hole.\<close>
  "sparse = [Point (Vector3 0 0 0), Hole, Point (Vector3 0 0 1)]"

definition red :: Color3 where
  "red = Color3 1 0 0"

definition blue :: Color3 where
  "blue = Color3 0 0 1"

definition tracked0 :: XrExperience where
  \<comment> \<open>Plane 0 has been added: its mesh is object 0, its material is object 0.\<close>
  "tracked0 = run dec0 [PlaneAdded (mkPlane 0 triangle) red] initial"

subsection \<open>Vocabulary of the statements\<close>

definition xz :: "Vector3 \<Rightarrow> Vector2" where
  \<comment> \<open>The point \<^verbatim>\<open>new Vector2(p.x, p.z)\<close> of a present entry.\<close>
  "xz p = Vector2 (v3x p) (v3z p)"

definition closedContour :: "entry list \<Rightarrow> error + Vector2 list" where
  \<comment> \<open>From the outline to the contour the mesh is built on, as \<^verbatim>\<open>initPolygon\<close> goes.\<close>
  "closedContour ps =
     (case toVector2 (push_first ps) of
        Inl e \<Rightarrow> Inl e
      | Inr vs \<Rightarrow> newPolygonMeshBuilder vs)"

definition wellFormed :: "entry list \<Rightarrow> bool" where
  \<comment> \<open>An outline with at least one point and no missing point.\<close>
  "wellFormed ps = (ps \<noteq> [] \<and> \<not> list_ex (\<lambda>e. e = Hole \<or> e = Nullish) ps)"

fun changeOf :: "nat \<Rightarrow> event \<Rightarrow> bool" where
  \<comment> \<open>A PlaneAdded or PlaneUpdated of plane \<open>i\<close> with a well-formed outline.\<close>
  "changeOf i (PlaneAdded p c) = (plane_id p = i \<and> wellFormed (polygonDefinition p))"
| "changeOf i (PlaneUpdated p) = (plane_id p = i \<and> wellFormed (polygonDefinition p))"
| "changeOf i (PlaneRemoved p) = False"
| "changeOf i XRSessionInit = False"

fun isAdded :: "event \<Rightarrow> bool" where
  "isAdded (PlaneAdded p c) = True"
| "isAdded (PlaneUpdated p) = False"
| "isAdded (PlaneRemoved p) = False"
| "isAdded XRSessionInit = False"

definition live :: "XrExperience \<Rightarrow> nat \<Rightarrow> bool" where
  \<comment> \<open>The slot of plane \<open>i\<close> holds an existing mesh, not disposed, with a material.\<close>
  "live st i =
     (case array_get (planes st) i of
        None \<Rightarrow> False
      | Some r \<Rightarrow> r < length (meshes st) \<and> \<not> isDisposed (meshes st ! r) \<and>
                  material (meshes st ! r) \<noteq> None)"

definition view :: "XrExperience \<Rightarrow> nat \<Rightarrow> (Mesh \<times> StandardMaterial option) option" where
  \<comment> \<open>The mesh of slot \<open>i\<close>, its material reference erased, and the material it refers to.\<close>
  "view st i =
     (case array_get (planes st) i of
        None \<Rightarrow> None
      | Some r \<Rightarrow>
          Some ((meshes st ! r)\<lparr>material := None\<rparr>,
                map_option (\<lambda>m. materials st ! m) (material (meshes st ! r))))"

fun event_id :: "event \<Rightarrow> nat option" where
  "event_id (PlaneAdded p c) = Some (plane_id p)"
| "event_id (PlaneUpdated p) = Some (plane_id p)"
| "event_id (PlaneRemoved None) = None"
| "event_id (PlaneRemoved (Some p)) = Some (plane_id p)"
| "event_id XRSessionInit = None"

definition eventsOf :: "nat \<Rightarrow> event list \<Rightarrow> event list" where
  \<comment> \<open>The notifications of plane \<open>i\<close>, in order.\<close>
  "eventsOf i es = filter (\<lambda>e. event_id e = Some i) es"

definition planeEvents :: "event list \<Rightarrow> bool" where
  \<comment> \<open>No session initialisation in the sequence.\<close>
  "planeEvents es = list_all (\<lambda>e. e \<noteq> XRSessionInit) es"

text \<open>
  Invariants of the states reached from \<open>initial\<close> by plane notifications: every slot
  refers to an existing mesh, no two slots refer to the same mesh, and every mesh carries a
  material that exists.
\<close>

definition refs_ok :: "XrExperience \<Rightarrow> bool" where
  "refs_ok st = (\<forall>i r. array_get (planes st) i = Some r \<longrightarrow> r < length (meshes st))"

definition slots_inj :: "XrExperience \<Rightarrow> bool" where
  "slots_inj st =
     (\<forall>i j r. array_get (planes st) i = Some r \<longrightarrow> array_get (planes st) j = Some r \<longrightarrow> i = j)"

definition mats_ok :: "XrExperience \<Rightarrow> bool" where
  "mats_ok st =
     (\<forall>r < length (meshes st). \<exists>m. material (meshes st ! r) = Some m \<and> m < length (materials st))"

definition wf_state :: "XrExperience \<Rightarrow> bool" where
  "wf_state st = (refs_ok st \<and> slots_inj st \<and> mats_ok st)"

definition install :: "nat \<Rightarrow> Mesh \<Rightarrow> XrExperience \<Rightarrow> XrExperience" where
  \<comment> \<open>What a successful \<^verbatim>\<open>initPolygon\<close> does to the state: allocate \<open>M\<close>, write slot \<open>i\<close>.\<close>
  "install i M st =
     st\<lparr>meshes := meshes st @ [M], planes := array_set (planes st) i (length (meshes st))\<rparr>"

definition disposed :: "(Mesh \<times> StandardMaterial option) \<Rightarrow> (Mesh \<times> StandardMaterial option)" where
  "disposed v = ((fst v)\<lparr>geometry := None, isDisposed := True\<rparr>, snd v)"

text \<open>
  The effect of a notification of a plane on the view of that plane, used to show that the
  handlers compute it from that view alone.
\<close>

definition vstep ::
  "decompose \<Rightarrow> event \<Rightarrow> (Mesh \<times> StandardMaterial option) option
     \<Rightarrow> (Mesh \<times> StandardMaterial option) option" where
  "vstep dec e v =
     (case e of
        PlaneAdded p c \<Rightarrow>
          (case closedContour (polygonDefinition p) of
             Inl err \<Rightarrow> v
           | Inr vs \<Rightarrow>
               Some (buildPolygon dec p vs None,
                     Some \<lparr>materialName = ''mat'', alpha = 35 / 100, diffuseColor = c,
                           materialDisposed = False\<rparr>))
      | PlaneUpdated p \<Rightarrow>
          (case v of
             None \<Rightarrow> None
           | Some w \<Rightarrow>
               if some_falsy (polygonDefinition p) then Some (disposed w)
               else (case closedContour (polygonDefinition p) of
                       Inl err \<Rightarrow> Some (disposed w)
                     | Inr vs \<Rightarrow> Some (buildPolygon dec p vs None, snd w)))
      | PlaneRemoved p \<Rightarrow> map_option disposed v
      | XRSessionInit \<Rightarrow> v)"

section \<open>Basic facts\<close>

lemmas sample_defs = initial_def mkPlane_def triangle_def twoPoints_def stale_def sparse_def dec0_def
  red_def blue_def tracked0_def

lemmas code_defs = onPlaneAdded_def onPlaneUpdated_def onPlaneRemoved_def onXRSessionInit_def
  initPolygon_def buildPolygon_def push_first_def entry_at_def some_falsy_def
  newPolygonMeshBuilder_def array_get_def array_set_def dispose_def forEach_dispose_def
  pop_while.simps pop_def

lemma array_get_set:
  "array_get (array_set a i v) j = (if j = i then Some v else array_get a j)"
  by (auto simp: array_get_def array_set_def nth_append)

lemma toVector2_Point: "toVector2 (map Point qs) = Inr (map (\<lambda>q. Some (xz q)) qs)"
  by (induction qs) (simp_all add: xz_def)

lemma those_map_Some: "those (map (\<lambda>q. Some (f q)) qs) = Some (map f qs)"
  by (induction qs) simp_all

lemma toVector2_Nullish: "Nullish \<in> set ps \<Longrightarrow> toVector2 ps = Inl TypeError"
proof (induction ps)
  case Nil
  then show ?case by simp
next
  case (Cons p ps)
  then show ?case by (cases p) (auto split: sum.splits)
qed

lemma toVector2_Hole: "Hole \<in> set ps \<Longrightarrow> toVector2 ps = Inr vs \<Longrightarrow> those vs = None"
proof (induction ps arbitrary: vs)
  case Nil
  then show ?case by simp
next
  case (Cons p ps)
  then show ?case by (cases p) (auto split: sum.splits)
qed

lemma push_first_Point: "qs \<noteq> [] \<Longrightarrow> push_first (map Point qs) = map Point (qs @ [hd qs])"
  by (cases qs) (simp_all add: push_first_def entry_at_def)

lemma closedContour_Point:
  assumes "qs \<noteq> []"
  shows "closedContour (map Point qs) = Inr (map xz (qs @ [hd qs]))"
  unfolding closedContour_def push_first_Point [OF assms] toVector2_Point
  by (simp add: newPolygonMeshBuilder_def those_map_Some del: map_append)

lemma closedContour_throws:
  assumes "ps = [] \<or> Hole \<in> set ps \<or> Nullish \<in> set ps"
  shows "closedContour ps = Inl TypeError"
proof (cases "toVector2 (push_first ps)")
  case (Inl e)
  then show ?thesis by (cases e) (simp add: closedContour_def)
next
  case (Inr vs)
  have "Nullish \<notin> set (push_first ps)"
    using Inr toVector2_Nullish [of "push_first ps"] by auto
  with assms have h: "Hole \<in> set (push_first ps)"
    by (auto simp: push_first_def entry_at_def)
  have "those vs = None" by (rule toVector2_Hole [OF h Inr])
  with Inr show ?thesis by (simp add: closedContour_def newPolygonMeshBuilder_def)
qed

lemma initPolygon_contour:
  "initPolygon dec plane m st =
     (case closedContour (polygonDefinition plane) of
        Inl e \<Rightarrow> (Inl e, plane\<lparr>polygonDefinition := push_first (polygonDefinition plane)\<rparr>, st)
      | Inr pts \<Rightarrow>
          (Inr (length (meshes st)),
           plane\<lparr>polygonDefinition := push_first (polygonDefinition plane)\<rparr>,
           st\<lparr>meshes := meshes st @ [buildPolygon dec plane pts m],
              planes := array_set (planes st) (plane_id plane) (length (meshes st))\<rparr>))"
  by (simp add: initPolygon_def closedContour_def buildPolygon_def Let_def split: sum.splits)

lemma initPolygon_ok:
  assumes "polygonDefinition plane = map Point qs" and "qs \<noteq> []"
  shows "initPolygon dec plane m st =
    (Inr (length (meshes st)),
     plane\<lparr>polygonDefinition := map Point (qs @ [hd qs])\<rparr>,
     st\<lparr>meshes := meshes st @ [buildPolygon dec plane (map xz (qs @ [hd qs])) m],
        planes := array_set (planes st) (plane_id plane) (length (meshes st))\<rparr>)"
  unfolding initPolygon_contour assms(1) closedContour_Point [OF assms(2)]
    push_first_Point [OF assms(2)]
  by simp

lemma initPolygon_throws:
  assumes "polygonDefinition plane = [] \<or> Hole \<in> set (polygonDefinition plane) \<or>
           Nullish \<in> set (polygonDefinition plane)"
  shows "initPolygon dec plane m st =
    (Inl TypeError, plane\<lparr>polygonDefinition := push_first (polygonDefinition plane)\<rparr>, st)"
  unfolding initPolygon_contour closedContour_throws [OF assms]
  by simp

lemma dispose_False_simps:
  "planes (dispose r a False st) = planes st"
  "materials (dispose r a False st) = materials st"
  "mat (dispose r a False st) = mat st"
  "length (meshes (dispose r a False st)) = length (meshes st)"
  "meshes (dispose r a False st) =
     (meshes st)[r := (meshes st ! r)\<lparr>geometry := None, isDisposed := True\<rparr>]"
  by (simp_all add: dispose_def)

lemma dispose_idem: "dispose r a False (dispose r b False st) = dispose r b False st"
  by (cases "r < length (meshes st)") (simp_all add: dispose_def list_update_beyond)

section \<open>The update handler\<close>

text \<open>
  C1 (as stated, refuted). Plane 0 is tracked with the live mesh 0, which has its geometry.
  An update whose outline has an undefined point returns without building, and slot 0
  still holds mesh 0, but the handler has disposed that mesh before it looked at the
  outline: its geometry is released.
\<close>

theorem C1_counterexample:
  "array_get (planes tracked0) 0 = Some 0 \<and> \<not> isDisposed (meshes tracked0 ! 0) \<and>
   geometry (meshes tracked0 ! 0) \<noteq> None \<and>
   fst (onPlaneUpdated dec0 (mkPlane 0 stale) tracked0) = None \<and>
   array_get (planes (snd (onPlaneUpdated dec0 (mkPlane 0 stale) tracked0))) 0 = Some 0 \<and>
   isDisposed (meshes (snd (onPlaneUpdated dec0 (mkPlane 0 stale) tracked0)) ! 0) \<and>
   geometry (meshes (snd (onPlaneUpdated dec0 (mkPlane 0 stale) tracked0)) ! 0) = None"
  by (simp add: sample_defs code_defs)

text \<open>
  C1 (amended). For a slot that holds mesh \<open>X\<close>, an update whose outline has a null or
  undefined point throws nothing and builds no mesh; the array \<^verbatim>\<open>_planes\<close>, the materials
  and every other mesh are unchanged, so the slot holds the same object \<open>X\<close>, with the
  same material reference. When \<open>X\<close> carries no material it is untouched; when it carries
  one, the handler has disposed it: \<open>X\<close> is marked disposed and its geometry is released.
\<close>

theorem C1_stale_update:
  assumes "array_get (planes st) (plane_id plane) = Some X"
    and "X < length (meshes st)"
    and "Nullish \<in> set (polygonDefinition plane)"
  shows "\<exists>st'. onPlaneUpdated dec plane st = (None, st') \<and>
           planes st' = planes st \<and>
           length (meshes st') = length (meshes st) \<and>
           materials st' = materials st \<and>
           (\<forall>k. k \<noteq> X \<longrightarrow> meshes st' ! k = meshes st ! k) \<and>
           material (meshes st' ! X) = material (meshes st ! X) \<and>
           (material (meshes st ! X) = None \<longrightarrow> meshes st' ! X = meshes st ! X) \<and>
           (material (meshes st ! X) \<noteq> None \<longrightarrow>
              isDisposed (meshes st' ! X) \<and> geometry (meshes st' ! X) = None)"
proof -
  from assms(3) have s: "some_falsy (polygonDefinition plane)"
    by (simp add: some_falsy_def list_ex_iff)
  show ?thesis
  proof (cases "material (meshes st ! X)")
    case None
    with assms(1) s show ?thesis by (simp add: onPlaneUpdated_def)
  next
    case (Some m)
    with assms(1,2) s show ?thesis
      by (simp add: onPlaneUpdated_def dispose_False_simps)
  qed
qed

text \<open>C1 (amended), at the tracked plane 0 and the outline \<open>stale\<close>.\<close>

theorem C1_stale_update_witness:
  "array_get (planes tracked0) (plane_id (mkPlane 0 stale)) = Some 0 \<and>
   0 < length (meshes tracked0) \<and>
   Nullish \<in> set (polygonDefinition (mkPlane 0 stale)) \<and>
   (\<exists>st'. onPlaneUpdated dec0 (mkPlane 0 stale) tracked0 = (None, st') \<and>
      planes st' = planes tracked0 \<and> isDisposed (meshes st' ! 0) \<and>
      geometry (meshes st' ! 0) = None)"
proof -
  have a: "array_get (planes tracked0) (plane_id (mkPlane 0 stale)) = Some 0"
    by (simp add: sample_defs code_defs)
  have b: "0 < length (meshes tracked0)"
    by (simp add: sample_defs code_defs)
  have c: "Nullish \<in> set (polygonDefinition (mkPlane 0 stale))"
    by (simp add: sample_defs)
  have d: "material (meshes tracked0 ! 0) \<noteq> None"
    by (simp add: sample_defs code_defs)
  from C1_stale_update [OF a b c, of dec0] d a b c show ?thesis
    by blast
qed

text \<open>
  An outline whose only missing entry is a hole is not taken for stale: the handler
  disposes the mesh of the slot, goes on to \<^verbatim>\<open>initPolygon\<close> and throws.
\<close>

lemma update_sparse_outline_throws:
  "fst (onPlaneUpdated dec0 (mkPlane 0 sparse) tracked0) = Some TypeError \<and>
   array_get (planes (snd (onPlaneUpdated dec0 (mkPlane 0 sparse) tracked0))) 0 = Some 0 \<and>
   isDisposed (meshes (snd (onPlaneUpdated dec0 (mkPlane 0 sparse) tracked0)) ! 0)"
  by (simp add: sample_defs code_defs)

text \<open>
  C2 (the code at the failing input). No plane was ever added, so slot 0 of \<^verbatim>\<open>_planes\<close>
  is undefined; the update handler reads \<^verbatim>\<open>.material\<close> of it and throws a TypeError.
\<close>

theorem C2_update_unknown_id_throws:
  "array_get (planes initial) 0 = None \<and>
   onPlaneUpdated dec0 (mkPlane 0 triangle) initial = (Some TypeError, initial)"
  by (simp add: sample_defs code_defs)

section \<open>Session initialisation\<close>

text \<open>
  C3 (the code at the failing input). Planes 0 and 2 are tracked, so \<^verbatim>\<open>_planes\<close> has a
  hole at index 1. Session initialisation throws nothing, pops mesh 1 and then the hole,
  where \<^verbatim>\<open>while (this._planes.pop())\<close> stops: the entry of plane 0 stays in the array.
\<close>

theorem C3_session_init_keeps_entry:
  "planes (run dec0 [PlaneAdded (mkPlane 0 triangle) red, PlaneAdded (mkPlane 2 triangle) blue]
             initial) = [Some 0, None, Some 1] \<and>
   fst (onXRSessionInit (run dec0 [PlaneAdded (mkPlane 0 triangle) red,
                                    PlaneAdded (mkPlane 2 triangle) blue] initial)) = None \<and>
   planes (run dec0 [PlaneAdded (mkPlane 0 triangle) red, PlaneAdded (mkPlane 2 triangle) blue,
                     XRSessionInit] initial) = [Some 0] \<and>
   array_get (planes (run dec0 [PlaneAdded (mkPlane 0 triangle) red,
                                PlaneAdded (mkPlane 2 triangle) blue, XRSessionInit] initial)) 0
     = Some 0"
  by (simp add: sample_defs code_defs)

section \<open>The removal handler\<close>

text \<open>
  C4 (as stated, refuted). After plane 0 was added and removed, once or twice, slot 0 of
  \<^verbatim>\<open>_planes\<close> still holds its mesh: the handler never deletes the entry.
\<close>

theorem C4_counterexample:
  "array_get (planes (run dec0 [PlaneAdded (mkPlane 0 triangle) red,
                                PlaneRemoved (Some (mkPlane 0 triangle))] initial)) 0 = Some 0 \<and>
   array_get (planes (run dec0 [PlaneAdded (mkPlane 0 triangle) red,
                                PlaneRemoved (Some (mkPlane 0 triangle)),
                                PlaneRemoved (Some (mkPlane 0 triangle))] initial)) 0 = Some 0"
  by (simp add: sample_defs code_defs)

text \<open>
  C4 (amended). Removal never throws and never changes \<^verbatim>\<open>_planes\<close> or a material. With
  an empty slot it changes nothing; with a slot holding mesh \<open>r\<close> it leaves \<open>r\<close>
  disposed, its geometry released; a second removal of the same plane changes nothing more.
\<close>

theorem C4_removed:
  "fst (onPlaneRemoved (Some p) st) = None \<and>
   planes (snd (onPlaneRemoved (Some p) st)) = planes st \<and>
   materials (snd (onPlaneRemoved (Some p) st)) = materials st \<and>
   (array_get (planes st) (plane_id p) = None \<longrightarrow> snd (onPlaneRemoved (Some p) st) = st) \<and>
   (\<forall>r. array_get (planes st) (plane_id p) = Some r \<and> r < length (meshes st) \<longrightarrow>
      isDisposed (meshes (snd (onPlaneRemoved (Some p) st)) ! r) \<and>
      geometry (meshes (snd (onPlaneRemoved (Some p) st)) ! r) = None) \<and>
   onPlaneRemoved (Some p) (snd (onPlaneRemoved (Some p) st)) = onPlaneRemoved (Some p) st"
  by (cases "array_get (planes st) (plane_id p)")
     (simp_all add: onPlaneRemoved_def dispose_False_simps dispose_idem)

text \<open>C4 (amended), at the tracked plane 0 and at the empty Registry.\<close>

theorem C4_removed_witness:
  "array_get (planes tracked0) (plane_id (mkPlane 0 triangle)) = Some 0 \<and>
   0 < length (meshes tracked0) \<and>
   isDisposed (meshes (snd (onPlaneRemoved (Some (mkPlane 0 triangle)) tracked0)) ! 0) \<and>
   geometry (meshes (snd (onPlaneRemoved (Some (mkPlane 0 triangle)) tracked0)) ! 0) = None \<and>
   array_get (planes initial) (plane_id (mkPlane 0 triangle)) = None \<and>
   snd (onPlaneRemoved (Some (mkPlane 0 triangle)) initial) = initial"
proof -
  have a: "array_get (planes tracked0) (plane_id (mkPlane 0 triangle)) = Some 0"
    by (simp add: sample_defs code_defs)
  have b: "0 < length (meshes tracked0)"
    by (simp add: sample_defs code_defs)
  have c: "array_get (planes initial) (plane_id (mkPlane 0 triangle)) = None"
    by (simp add: sample_defs code_defs)
  from C4_removed [of "mkPlane 0 triangle" tracked0] C4_removed [of "mkPlane 0 triangle" initial]
    a b c show ?thesis by blast
qed

section \<open>The builder\<close>

text \<open>
  C7 (as stated, refuted). For an outline of two points \<^verbatim>\<open>initPolygon\<close> throws nothing:
  it builds a mesh on the three-point contour and stores it in slot 0.
\<close>

theorem C7_counterexample:
  "fst (initPolygon dec0 (mkPlane 0 twoPoints) None initial) = Inr 0 \<and>
   array_get (planes (snd (snd (initPolygon dec0 (mkPlane 0 twoPoints) None initial)))) 0 = Some 0 \<and>
   map_option contours
     (geometry (meshes (snd (snd (initPolygon dec0 (mkPlane 0 twoPoints) None initial))) ! 0))
     = Some [Vector2 0 0, Vector2 1 0, Vector2 0 0]"
  by (simp add: sample_defs code_defs)

text \<open>
  C7 (amended). For every outline with at least one point and no missing point, however
  few of them are distinct, \<^verbatim>\<open>initPolygon\<close> returns a new mesh on the closed contour and
  stores it in the slot of the plane. It throws (a TypeError) exactly for an empty outline
  or one with a missing entry (a hole, null or undefined), and then leaves the state as it
  was.
\<close>

theorem C7_build_outcome:
  "(polygonDefinition plane = map Point qs \<and> qs \<noteq> [] \<longrightarrow>
      fst (initPolygon dec plane m st) = Inr (length (meshes st)) \<and>
      array_get (planes (snd (snd (initPolygon dec plane m st)))) (plane_id plane)
        = Some (length (meshes st)) \<and>
      map_option contours
        (geometry (meshes (snd (snd (initPolygon dec plane m st))) ! length (meshes st)))
        = Some (map xz (qs @ [hd qs]))) \<and>
   (polygonDefinition plane = [] \<or> Hole \<in> set (polygonDefinition plane) \<or>
    Nullish \<in> set (polygonDefinition plane) \<longrightarrow>
      fst (initPolygon dec plane m st) = Inl TypeError \<and>
      snd (snd (initPolygon dec plane m st)) = st)"
proof (intro conjI impI)
  assume w: "polygonDefinition plane = map Point qs \<and> qs \<noteq> []"
  note ok = initPolygon_ok [of plane qs dec m st]
  from w ok show "fst (initPolygon dec plane m st) = Inr (length (meshes st))"
    by simp
  from w ok show "array_get (planes (snd (snd (initPolygon dec plane m st)))) (plane_id plane)
        = Some (length (meshes st))"
    by (simp add: array_get_set)
  from w ok show "map_option contours
        (geometry (meshes (snd (snd (initPolygon dec plane m st))) ! length (meshes st)))
        = Some (map xz (qs @ [hd qs]))"
    by (simp add: buildPolygon_def split: prod.splits del: map_append)
next
  assume b: "polygonDefinition plane = [] \<or> Hole \<in> set (polygonDefinition plane) \<or>
    Nullish \<in> set (polygonDefinition plane)"
  from initPolygon_throws [OF b] show "fst (initPolygon dec plane m st) = Inl TypeError"
    by simp
  from initPolygon_throws [OF b] show "snd (snd (initPolygon dec plane m st)) = st"
    by simp
qed

text \<open>C7 (amended), at the two-point outline and at the outline \<open>stale\<close>.\<close>

theorem C7_build_outcome_witness:
  "polygonDefinition (mkPlane 0 twoPoints) = map Point [Vector3 0 0 0, Vector3 1 0 0] \<and>
   [Vector3 0 0 0, Vector3 1 0 0] \<noteq> [] \<and>
   fst (initPolygon dec0 (mkPlane 0 twoPoints) None initial) = Inr (length (meshes initial)) \<and>
   Nullish \<in> set (polygonDefinition (mkPlane 0 stale)) \<and>
   fst (initPolygon dec0 (mkPlane 0 stale) None tracked0) = Inl TypeError \<and>
   snd (snd (initPolygon dec0 (mkPlane 0 stale) None tracked0)) = tracked0"
proof -
  have a: "polygonDefinition (mkPlane 0 twoPoints) = map Point [Vector3 0 0 0, Vector3 1 0 0]"
    by (simp add: sample_defs)
  have b: "Nullish \<in> set (polygonDefinition (mkPlane 0 stale))"
    by (simp add: sample_defs)
  from C7_build_outcome [of "mkPlane 0 twoPoints" "[Vector3 0 0 0, Vector3 1 0 0]" dec0 None initial]
    C7_build_outcome [of "mkPlane 0 stale" "[]" dec0 None tracked0] a b
  show ?thesis by simp
qed

text \<open>
  C8 (as stated, refuted). The mesh built for the triangle is extruded by the depth
  \<^verbatim>\<open>0.01\<close> passed to \<^verbatim>\<open>build\<close>, not by zero.
\<close>

theorem C8_counterexample:
  "fst (initPolygon dec0 (mkPlane 0 triangle) None initial) = Inr 0 \<and>
   map_option depth
     (geometry (meshes (snd (snd (initPolygon dec0 (mkPlane 0 triangle) None initial))) ! 0))
     = Some (1 / 100) \<and>
   map_option depth
     (geometry (meshes (snd (snd (initPolygon dec0 (mkPlane 0 triangle) None initial))) ! 0))
     \<noteq> Some 0"
  by (simp add: sample_defs code_defs)

text \<open>
  C8 (amended). For every outline with at least one point and no missing point, the mesh
  returned has the outline closed by its first point as contour, depth \<^verbatim>\<open>0.01\<close>, is
  not updatable, has its normals created, carries the scale, rotation and position that
  \<^verbatim>\<open>decompose\<close> gives for the plane's matrix, the material handed in, and is collidable
  and a shadow receiver.
\<close>

theorem C8_built_mesh:
  assumes "polygonDefinition plane = map Point qs" and "qs \<noteq> []"
  shows "\<exists>r plane' st' s q t.
           initPolygon dec plane m st = (Inr r, plane', st') \<and>
           r < length (meshes st') \<and>
           dec (transformationMatrix plane) = (s, q, t) \<and>
           geometry (meshes st' ! r) =
             Some \<lparr>contours = map xz (qs @ [hd qs]), updatable = False, depth = 1 / 100,
                   normalsCreated = True\<rparr> \<and>
           scaling (meshes st' ! r) = s \<and>
           rotationQuaternion (meshes st' ! r) = Some q \<and>
           position (meshes st' ! r) = t \<and>
           material (meshes st' ! r) = m \<and>
           checkCollisions (meshes st' ! r) \<and>
           receiveShadows (meshes st' ! r) \<and>
           \<not> isDisposed (meshes st' ! r)"
proof -
  obtain s q t where d: "dec (transformationMatrix plane) = (s, q, t)"
    by (cases "dec (transformationMatrix plane)") auto
  show ?thesis
    unfolding initPolygon_ok [OF assms]
    by (simp add: d buildPolygon_def del: map_append)
qed

text \<open>C8 (amended), at the triangle.\<close>

theorem C8_built_mesh_witness:
  "polygonDefinition (mkPlane 0 triangle) = map Point [Vector3 0 0 0, Vector3 1 0 0, Vector3 0 0 1] \<and>
   [Vector3 0 0 0, Vector3 1 0 0, Vector3 0 0 1] \<noteq> [] \<and>
   (\<exists>r plane' st'. initPolygon dec0 (mkPlane 0 triangle) None initial = (Inr r, plane', st') \<and>
      geometry (meshes st' ! r) =
        Some \<lparr>contours = [Vector2 0 0, Vector2 1 0, Vector2 0 1, Vector2 0 0],
              updatable = False, depth = 1 / 100, normalsCreated = True\<rparr> \<and>
      checkCollisions (meshes st' ! r) \<and> receiveShadows (meshes st' ! r))"
proof -
  have a: "polygonDefinition (mkPlane 0 triangle)
             = map Point [Vector3 0 0 0, Vector3 1 0 0, Vector3 0 0 1]"
    by (simp add: sample_defs)
  have b: "[Vector3 0 0 0, Vector3 1 0 0, Vector3 0 0 1] \<noteq> []"
    by simp
  from C8_built_mesh [OF a b, of dec0 None initial] a b show ?thesis
    by (auto simp: xz_def)
qed

lemma initPolygon_frame:
  "mat (snd (snd (initPolygon dec plane m st))) = mat st"
  "materials (snd (snd (initPolygon dec plane m st))) = materials st"
  "take (length (meshes st)) (meshes (snd (snd (initPolygon dec plane m st)))) = meshes st"
  "j \<noteq> plane_id plane \<Longrightarrow>
     array_get (planes (snd (snd (initPolygon dec plane m st)))) j = array_get (planes st) j"
  "fst (snd (initPolygon dec plane m st)) =
     plane\<lparr>polygonDefinition := polygonDefinition plane @ [entry_at (polygonDefinition plane) 0]\<rparr>"
  by (simp_all add: initPolygon_def Let_def push_first_def array_get_set split: sum.splits)

text \<open>
  C9 (as stated, refuted). Building the triangle for plane 0 writes slot 0 of \<^verbatim>\<open>_planes\<close>
  and appends a fourth point to the outline of the plane record it was given.
\<close>

theorem C9_counterexample:
  "planes initial = [] \<and>
   planes (snd (snd (initPolygon dec0 (mkPlane 0 triangle) None initial))) = [Some 0] \<and>
   polygonDefinition (mkPlane 0 triangle) = triangle \<and>
   polygonDefinition (fst (snd (initPolygon dec0 (mkPlane 0 triangle) None initial)))
     = triangle @ [Point (Vector3 0 0 0)]"
  by (simp add: sample_defs code_defs)

text \<open>
  C9 (amended). \<^verbatim>\<open>initPolygon\<close> appends the first point (or undefined, for an empty
  outline) to the outline of the plane record and changes no other field of it. It leaves
  the variable \<^verbatim>\<open>mat\<close>, the materials, the meshes that exist and every slot of another
  id unchanged. When it succeeds it adds one mesh and writes the slot of the plane's id;
  when it throws it leaves the state unchanged.
\<close>

theorem C9_build_effects:
  "fst (snd (initPolygon dec plane m st)) =
     plane\<lparr>polygonDefinition := polygonDefinition plane @ [entry_at (polygonDefinition plane) 0]\<rparr> \<and>
   mat (snd (snd (initPolygon dec plane m st))) = mat st \<and>
   materials (snd (snd (initPolygon dec plane m st))) = materials st \<and>
   take (length (meshes st)) (meshes (snd (snd (initPolygon dec plane m st)))) = meshes st \<and>
   (\<forall>j. j \<noteq> plane_id plane \<longrightarrow>
      array_get (planes (snd (snd (initPolygon dec plane m st)))) j = array_get (planes st) j) \<and>
   (polygonDefinition plane = map Point qs \<and> qs \<noteq> [] \<longrightarrow>
      fst (initPolygon dec plane m st) = Inr (length (meshes st)) \<and>
      length (meshes (snd (snd (initPolygon dec plane m st)))) = Suc (length (meshes st)) \<and>
      array_get (planes (snd (snd (initPolygon dec plane m st)))) (plane_id plane)
        = Some (length (meshes st))) \<and>
   (polygonDefinition plane = [] \<or> Hole \<in> set (polygonDefinition plane) \<or>
    Nullish \<in> set (polygonDefinition plane) \<longrightarrow>
      snd (snd (initPolygon dec plane m st)) = st)"
proof (intro conjI impI allI)
  assume w: "polygonDefinition plane = map Point qs \<and> qs \<noteq> []"
  note ok = initPolygon_ok [of plane qs dec m st]
  from w ok show "fst (initPolygon dec plane m st) = Inr (length (meshes st))"
    by simp
  from w ok show "length (meshes (snd (snd (initPolygon dec plane m st)))) = Suc (length (meshes st))"
    by simp
  from w ok show "array_get (planes (snd (snd (initPolygon dec plane m st)))) (plane_id plane)
        = Some (length (meshes st))"
    by (simp add: array_get_set)
next
  assume b: "polygonDefinition plane = [] \<or> Hole \<in> set (polygonDefinition plane) \<or>
    Nullish \<in> set (polygonDefinition plane)"
  from initPolygon_throws [OF b] show "snd (snd (initPolygon dec plane m st)) = st"
    by simp
qed (simp_all add: initPolygon_frame)

text \<open>C9 (amended), at the triangle for plane 0 and at the outline \<open>stale\<close>.\<close>

theorem C9_build_effects_witness:
  "polygonDefinition (mkPlane 0 triangle) = map Point [Vector3 0 0 0, Vector3 1 0 0, Vector3 0 0 1] \<and>
   [Vector3 0 0 0, Vector3 1 0 0, Vector3 0 0 1] \<noteq> [] \<and>
   (1::nat) \<noteq> plane_id (mkPlane 0 triangle) \<and>
   array_get (planes (snd (snd (initPolygon dec0 (mkPlane 0 triangle) None initial)))) 1
     = array_get (planes initial) 1 \<and>
   array_get (planes (snd (snd (initPolygon dec0 (mkPlane 0 triangle) None initial)))) 0 = Some 0 \<and>
   Nullish \<in> set (polygonDefinition (mkPlane 0 stale)) \<and>
   snd (snd (initPolygon dec0 (mkPlane 0 stale) None tracked0)) = tracked0"
proof -
  have a: "polygonDefinition (mkPlane 0 triangle)
             = map Point [Vector3 0 0 0, Vector3 1 0 0, Vector3 0 0 1]"
    by (simp add: sample_defs)
  have b: "Nullish \<in> set (polygonDefinition (mkPlane 0 stale))"
    by (simp add: sample_defs)
  have c: "(1::nat) \<noteq> plane_id (mkPlane 0 triangle)" "plane_id (mkPlane 0 triangle) = 0"
    "length (meshes initial) = 0"
    by (simp_all add: sample_defs)
  from C9_build_effects [of dec0 "mkPlane 0 triangle" None initial
      "[Vector3 0 0 0, Vector3 1 0 0, Vector3 0 0 1]"]
    C9_build_effects [of dec0 "mkPlane 0 stale" None tracked0 "[]"] a b c
  show ?thesis by simp
qed

section \<open>Materials\<close>

lemma onPlaneAdded_ok:
  assumes "polygonDefinition plane = map Point qs" and "qs \<noteq> []"
  shows "onPlaneAdded dec plane c st =
    (None,
     st\<lparr>materials := materials st @
           [\<lparr>materialName = ''mat'', alpha = 35 / 100, diffuseColor = c,
             materialDisposed = False\<rparr>],
        mat := Some (length (materials st)),
        meshes := meshes st @
           [buildPolygon dec plane (map xz (qs @ [hd qs])) (Some (length (materials st)))],
        planes := array_set (planes st) (plane_id plane) (length (meshes st))\<rparr>)"
  unfolding onPlaneAdded_def Let_def
  by (simp add: initPolygon_ok [OF assms] del: map_append)


lemma material_buildPolygon [simp]: "material (buildPolygon dec plane vs m) = m"
  by (simp add: buildPolygon_def split: prod.splits)

lemma isDisposed_buildPolygon [simp]: "\<not> isDisposed (buildPolygon dec plane vs m)"
  by (simp add: buildPolygon_def split: prod.splits)

lemma onPlaneUpdated_ok:
  assumes "polygonDefinition plane = map Point qs" and "qs \<noteq> []"
    and "array_get (planes st) (plane_id plane) = Some r"
    and "material (meshes st ! r) = Some m"
  shows "onPlaneUpdated dec plane st =
    (None,
     st\<lparr>mat := Some m,
        meshes := (meshes st)[r := (meshes st ! r)\<lparr>geometry := None, isDisposed := True\<rparr>] @
           [buildPolygon dec plane (map xz (qs @ [hd qs])) (Some m)],
        planes := array_set (planes st) (plane_id plane) (length (meshes st))\<rparr>)"
proof -
  have n: "\<not> some_falsy (polygonDefinition plane)"
    by (auto simp: assms(1) some_falsy_def list_ex_iff)
  have pd: "polygonDefinition plane = map Point qs" by (rule assms(1))
  show ?thesis
    unfolding onPlaneUpdated_def Let_def
    using n assms(3,4)
    by (simp add: initPolygon_ok [OF pd assms(2)] dispose_def del: map_append)
qed



section \<open>Sequences of additions and updates of one plane\<close>

lemma wellFormed_map_Point: "wellFormed ps \<Longrightarrow> \<exists>qs. ps = map Point qs \<and> qs \<noteq> []"
proof -
  assume w: "wellFormed ps"
  then have "\<forall>e \<in> set ps. \<exists>q. e = Point q"
    unfolding wellFormed_def list_ex_iff by (metis entry.exhaust)
  then have "\<exists>qs. ps = map Point qs"
  proof (induction ps)
    case Nil
    then show ?case by simp
  next
    case (Cons e ps)
    then obtain q qs where "e = Point q" "ps = map Point qs" by auto
    then have "e # ps = map Point (q # qs)" by simp
    then show ?case by (rule exI [of _ "q # qs"])
  qed
  with w show ?thesis by (auto simp: wellFormed_def)
qed

lemma live_added:
  assumes "wellFormed (polygonDefinition p)"
  shows "live (snd (onPlaneAdded dec p c st)) (plane_id p)"
proof -
  from wellFormed_map_Point [OF assms] obtain qs
    where q: "polygonDefinition p = map Point qs" "qs \<noteq> []" by blast
  show ?thesis
    unfolding onPlaneAdded_ok [OF q]
    by (simp add: live_def array_get_set del: map_append)
qed

lemma updated_replaces:
  assumes w: "wellFormed (polygonDefinition p)" and l: "live st (plane_id p)"
  shows "\<exists>old new mid p' s2.
           array_get (planes st) (plane_id p) = Some old \<and>
           onPlaneUpdated dec p st = (None, s2) \<and>
           planes mid = planes st \<and> isDisposed (meshes mid ! old) \<and>
           geometry (meshes mid ! old) = None \<and>
           initPolygon dec p (material (meshes st ! old)) mid = (Inr new, p', s2) \<and>
           array_get (planes s2) (plane_id p) = Some new \<and> new \<noteq> old \<and>
           isDisposed (meshes s2 ! old) \<and> geometry (meshes s2 ! old) = None \<and>
           \<not> isDisposed (meshes s2 ! new) \<and>
           material (meshes s2 ! new) = material (meshes st ! old) \<and>
           new < length (meshes s2) \<and>
           materials s2 = materials st"
proof -
  from wellFormed_map_Point [OF w] obtain qs
    where q: "polygonDefinition p = map Point qs" "qs \<noteq> []" by blast
  from l obtain old m where o: "array_get (planes st) (plane_id p) = Some old"
    "old < length (meshes st)" "material (meshes st ! old) = Some m"
    by (auto simp: live_def split: option.splits)
  define mid where "mid = dispose old False False (st\<lparr>mat := Some m\<rparr>)"
  define s2 where "s2 = st\<lparr>mat := Some m,
        meshes := (meshes st)[old := (meshes st ! old)\<lparr>geometry := None, isDisposed := True\<rparr>] @
           [buildPolygon dec p (map xz (qs @ [hd qs])) (Some m)],
        planes := array_set (planes st) (plane_id p) (length (meshes st))\<rparr>"
  have u: "onPlaneUpdated dec p st = (None, s2)"
    unfolding s2_def by (rule onPlaneUpdated_ok [OF q o(1) o(3)])
  have i: "initPolygon dec p (material (meshes st ! old)) mid =
             (Inr (length (meshes st)), p\<lparr>polygonDefinition := map Point (qs @ [hd qs])\<rparr>, s2)"
    unfolding initPolygon_ok [OF q] o(3) s2_def
    by (simp add: mid_def dispose_def del: map_append)
  have m1: "planes mid = planes st" "isDisposed (meshes mid ! old)"
    "geometry (meshes mid ! old) = None"
    using o(2) by (simp_all add: mid_def dispose_def)
  have f: "array_get (planes s2) (plane_id p) = Some (length (meshes st))"
    "length (meshes st) \<noteq> old"
    "isDisposed (meshes s2 ! old)" "geometry (meshes s2 ! old) = None"
    "\<not> isDisposed (meshes s2 ! length (meshes st))"
    "material (meshes s2 ! length (meshes st)) = material (meshes st ! old)"
    "length (meshes st) < length (meshes s2)"
    "materials s2 = materials st"
    using o(2,3) by (simp_all add: s2_def array_get_set nth_append del: map_append)
  from o(1) u m1 i f show ?thesis by blast
qed

lemma live_updated:
  assumes "wellFormed (polygonDefinition p)" and "live st (plane_id p)"
  shows "live (snd (onPlaneUpdated dec p st)) (plane_id p)"
proof -
  from updated_replaces [OF assms, of dec] obtain old new s2 where
    "onPlaneUpdated dec p st = (None, s2)" "array_get (planes s2) (plane_id p) = Some new"
    "\<not> isDisposed (meshes s2 ! new)" "material (meshes s2 ! new) = material (meshes st ! old)"
    "new < length (meshes s2)" "array_get (planes st) (plane_id p) = Some old"
    by blast
  with assms(2) show ?thesis
    by (simp add: live_def)
qed

lemma live_step:
  "changeOf i e \<Longrightarrow> isAdded e \<or> live st i \<Longrightarrow> live (snd (step dec e st)) i"
  by (cases e) (auto simp: live_added live_updated)

lemma live_run:
  "\<forall>e \<in> set es. changeOf i e \<Longrightarrow> live st i \<Longrightarrow> live (run dec es st) i"
  by (induction es arbitrary: st) (simp_all add: live_step)

lemma live_run_from_added:
  assumes "es \<noteq> []" and "isAdded (hd es)" and "\<forall>e \<in> set es. changeOf i e"
  shows "live (run dec es st) i"
proof (cases es)
  case Nil
  with assms(1) show ?thesis by simp
next
  case (Cons e es')
  with assms have "live (snd (step dec e st)) i"
    by (simp add: live_step)
  with Cons assms(3) show ?thesis
    by (simp add: live_run)
qed

text \<open>
  C5 (as stated, refuted). Plane 0 is tracked with mesh 0. A second PlaneAdded for plane 0
  throws nothing and stores mesh 1 in slot 0; the replaced mesh 0 is not disposed.
\<close>

theorem C5_counterexample:
  "fst (onPlaneAdded dec0 (mkPlane 0 triangle) blue tracked0) = None \<and>
   array_get (planes tracked0) 0 = Some 0 \<and>
   array_get (planes (snd (onPlaneAdded dec0 (mkPlane 0 triangle) blue tracked0))) 0 = Some 1 \<and>
   \<not> isDisposed (meshes (snd (onPlaneAdded dec0 (mkPlane 0 triangle) blue tracked0)) ! 0)"
  by (simp add: sample_defs code_defs)

text \<open>
  C5 (amended). Take a non-empty sequence of PlaneAdded and PlaneUpdated events of plane
  \<open>i\<close>, all with an outline of at least one point and none missing, that starts with
  PlaneAdded. After it the slot of \<open>i\<close> holds one mesh, which is not disposed. A
  PlaneUpdated of \<open>i\<close> with such an outline then throws nothing: it disposes the mesh
  \<open>old\<close> of the slot, releasing its geometry, while the slot still holds it (state
  \<open>mid\<close>), and only then
  \<^verbatim>\<open>initPolygon\<close> builds the mesh \<open>new\<close> and stores it in the slot; \<open>new\<close> carries
  the material of \<open>old\<close>, and no material is changed.
\<close>

theorem C5_one_mesh:
  assumes "es \<noteq> []" and "isAdded (hd es)" and "\<forall>e \<in> set es. changeOf i e"
  shows "(\<exists>r. array_get (planes (run dec es st)) i = Some r \<and>
              r < length (meshes (run dec es st)) \<and>
              \<not> isDisposed (meshes (run dec es st) ! r)) \<and>
         (\<forall>p. changeOf i (PlaneUpdated p) \<longrightarrow>
            (\<exists>old new mid p' s2.
               array_get (planes (run dec es st)) i = Some old \<and>
               onPlaneUpdated dec p (run dec es st) = (None, s2) \<and>
               planes mid = planes (run dec es st) \<and>
               isDisposed (meshes mid ! old) \<and> geometry (meshes mid ! old) = None \<and>
               initPolygon dec p (material (meshes (run dec es st) ! old)) mid = (Inr new, p', s2) \<and>
               array_get (planes s2) i = Some new \<and> new \<noteq> old \<and>
               isDisposed (meshes s2 ! old) \<and> geometry (meshes s2 ! old) = None \<and>
               material (meshes s2 ! new) = material (meshes (run dec es st) ! old) \<and>
               materials s2 = materials (run dec es st)))"
proof (intro conjI allI impI)
  have l: "live (run dec es st) i"
    by (rule live_run_from_added [OF assms])
  then show "\<exists>r. array_get (planes (run dec es st)) i = Some r \<and>
              r < length (meshes (run dec es st)) \<and>
              \<not> isDisposed (meshes (run dec es st) ! r)"
    by (auto simp: live_def split: option.splits)
  fix p
  assume c: "changeOf i (PlaneUpdated p)"
  then have w: "wellFormed (polygonDefinition p)" and i: "plane_id p = i"
    by simp_all
  from l i have l': "live (run dec es st) (plane_id p)" by simp
  from updated_replaces [OF w l', of dec] i
  show "\<exists>old new mid p' s2.
               array_get (planes (run dec es st)) i = Some old \<and>
               onPlaneUpdated dec p (run dec es st) = (None, s2) \<and>
               planes mid = planes (run dec es st) \<and>
               isDisposed (meshes mid ! old) \<and> geometry (meshes mid ! old) = None \<and>
               initPolygon dec p (material (meshes (run dec es st) ! old)) mid = (Inr new, p', s2) \<and>
               array_get (planes s2) i = Some new \<and> new \<noteq> old \<and>
               isDisposed (meshes s2 ! old) \<and> geometry (meshes s2 ! old) = None \<and>
               material (meshes s2 ! new) = material (meshes (run dec es st) ! old) \<and>
               materials s2 = materials (run dec es st)"
    by blast
qed

text \<open>C5 (amended), at plane 0 added, updated, and updated again.\<close>

theorem C5_one_mesh_witness:
  "[PlaneAdded (mkPlane 0 triangle) red, PlaneUpdated (mkPlane 0 twoPoints)] \<noteq> [] \<and>
   isAdded (hd [PlaneAdded (mkPlane 0 triangle) red, PlaneUpdated (mkPlane 0 twoPoints)]) \<and>
   list_all (changeOf 0)
     [PlaneAdded (mkPlane 0 triangle) red, PlaneUpdated (mkPlane 0 twoPoints)] \<and>
   changeOf 0 (PlaneUpdated (mkPlane 0 triangle)) \<and>
   (\<exists>r. array_get (planes (run dec0 [PlaneAdded (mkPlane 0 triangle) red,
                                        PlaneUpdated (mkPlane 0 twoPoints)] initial)) 0 = Some r \<and>
        \<not> isDisposed (meshes (run dec0 [PlaneAdded (mkPlane 0 triangle) red,
                                          PlaneUpdated (mkPlane 0 twoPoints)] initial) ! r)) \<and>
   (\<exists>old new s2.
      array_get (planes (run dec0 [PlaneAdded (mkPlane 0 triangle) red,
                                   PlaneUpdated (mkPlane 0 twoPoints)] initial)) 0 = Some old \<and>
      onPlaneUpdated dec0 (mkPlane 0 triangle)
        (run dec0 [PlaneAdded (mkPlane 0 triangle) red, PlaneUpdated (mkPlane 0 twoPoints)]
           initial) = (None, s2) \<and>
      array_get (planes s2) 0 = Some new \<and> new \<noteq> old \<and> isDisposed (meshes s2 ! old) \<and>
      geometry (meshes s2 ! old) = None)"
proof -
  have a: "[PlaneAdded (mkPlane 0 triangle) red, PlaneUpdated (mkPlane 0 twoPoints)] \<noteq> []"
    by simp
  have b: "isAdded (hd [PlaneAdded (mkPlane 0 triangle) red, PlaneUpdated (mkPlane 0 twoPoints)])"
    by simp
  have c: "\<forall>e \<in> set [PlaneAdded (mkPlane 0 triangle) red, PlaneUpdated (mkPlane 0 twoPoints)].
      changeOf 0 e"
    by (simp add: sample_defs wellFormed_def)
  have d: "changeOf 0 (PlaneUpdated (mkPlane 0 triangle))"
    by (simp add: sample_defs wellFormed_def)
  have c': "list_all (changeOf 0)
     [PlaneAdded (mkPlane 0 triangle) red, PlaneUpdated (mkPlane 0 twoPoints)]"
    using c by (simp only: list_all_iff)
  from C5_one_mesh [OF a b c, of dec0 initial] a b c' d show ?thesis
    by blast
qed

section \<open>Notifications of different planes\<close>

text \<open>
  \<open>view st i\<close> is what plane \<open>i\<close> shows in state \<open>st\<close>: the mesh of its slot with
  the material reference replaced by the material itself. References are store indices
  and depend on how many objects other planes allocated; the view does not.
\<close>

lemma initPolygon_install:
  "snd (snd (initPolygon dec p m st)) =
     (case closedContour (polygonDefinition p) of
        Inl err \<Rightarrow> st
      | Inr vs \<Rightarrow> install (plane_id p) (buildPolygon dec p vs m) st)"
  by (simp add: initPolygon_contour install_def split: sum.splits)

lemma buildPolygon_erase:
  "(buildPolygon dec p vs m)\<lparr>material := None\<rparr> = buildPolygon dec p vs None"
  by (simp add: buildPolygon_def split: prod.splits)

text \<open>Well-formedness is kept by the four state changes the handlers are made of.\<close>

lemma wf_initial: "wf_state initial"
  by (simp add: wf_state_def refs_ok_def slots_inj_def mats_ok_def initial_def array_get_def)

lemma wf_alloc:
  assumes "wf_state st"
  shows "wf_state (st\<lparr>materials := materials st @ [x], mat := y\<rparr>)"
proof -
  from assms have "mats_ok (st\<lparr>materials := materials st @ [x], mat := y\<rparr>)"
    unfolding wf_state_def mats_ok_def by (fastforce simp: less_Suc_eq)
  with assms show ?thesis
    by (simp add: wf_state_def refs_ok_def slots_inj_def)
qed

lemma wf_mat: "wf_state st \<Longrightarrow> wf_state (st\<lparr>mat := y\<rparr>)"
  by (simp add: wf_state_def refs_ok_def slots_inj_def mats_ok_def)

lemma wf_dispose:
  assumes "wf_state st"
  shows "wf_state (dispose r a False st)"
proof -
  have "material ((meshes st)[r := (meshes st ! r)\<lparr>geometry := None, isDisposed := True\<rparr>] ! k)
          = material (meshes st ! k)" if "k < length (meshes st)" for k
    using that by (cases "k = r") simp_all
  with assms have "mats_ok (dispose r a False st)"
    unfolding wf_state_def mats_ok_def by (simp add: dispose_False_simps)
  with assms show ?thesis
    by (simp add: wf_state_def refs_ok_def slots_inj_def dispose_False_simps)
qed

lemma wf_install:
  assumes w: "wf_state st" and m: "material M = Some m" "m < length (materials st)"
  shows "wf_state (install i M st)"
proof -
  from w have r: "refs_ok st" and s: "slots_inj st" and k: "mats_ok st"
    by (simp_all add: wf_state_def)
  have r': "refs_ok (install i M st)"
    using r unfolding refs_ok_def install_def
    by (auto simp: array_get_set less_SucI)
  have s': "slots_inj (install i M st)"
    unfolding slots_inj_def install_def
  proof (intro allI impI)
    fix a b ref
    assume a: "array_get (planes (st\<lparr>meshes := meshes st @ [M],
                 planes := array_set (planes st) i (length (meshes st))\<rparr>)) a = Some ref"
      and b: "array_get (planes (st\<lparr>meshes := meshes st @ [M],
                 planes := array_set (planes st) i (length (meshes st))\<rparr>)) b = Some ref"
    show "a = b"
    proof (cases "a = i")
      case True
      with a have ref: "ref = length (meshes st)" by (simp add: array_get_set)
      show ?thesis
      proof (cases "b = i")
        case True
        with \<open>a = i\<close> show ?thesis by simp
      next
        case False
        with b have "array_get (planes st) b = Some ref" by (simp add: array_get_set)
        with r have "ref < length (meshes st)" by (simp add: refs_ok_def)
        with ref show ?thesis by simp
      qed
    next
      case False
      with a have a': "array_get (planes st) a = Some ref" by (simp add: array_get_set)
      with r have lt: "ref < length (meshes st)" by (simp add: refs_ok_def)
      show ?thesis
      proof (cases "b = i")
        case True
        with b have "ref = length (meshes st)" by (simp add: array_get_set)
        with lt show ?thesis by simp
      next
        case False
        with b have "array_get (planes st) b = Some ref" by (simp add: array_get_set)
        with a' s show ?thesis unfolding slots_inj_def by blast
      qed
    qed
  qed
  have k': "mats_ok (install i M st)"
    using k m unfolding mats_ok_def install_def
    by (auto simp: nth_append less_Suc_eq)
  from r' s' k' show ?thesis by (simp add: wf_state_def)
qed

text \<open>The view of a plane under the same four state changes.\<close>

lemma view_mat: "view (st\<lparr>mat := y\<rparr>) i = view st i"
  by (simp add: view_def split: option.splits)

lemma view_alloc:
  assumes "wf_state st"
  shows "view (st\<lparr>materials := materials st @ [x], mat := y\<rparr>) i = view st i"
proof (cases "array_get (planes st) i")
  case None
  then show ?thesis by (simp add: view_def)
next
  case (Some r)
  with assms have "r < length (meshes st)" by (simp add: wf_state_def refs_ok_def)
  with assms obtain m where "material (meshes st ! r) = Some m" "m < length (materials st)"
    unfolding wf_state_def mats_ok_def by blast
  with Some show ?thesis by (simp add: view_def nth_append)
qed

lemma view_dispose:
  assumes "wf_state st"
  shows "view (dispose r a False st) i =
    (if array_get (planes st) i = Some r then map_option disposed (view st i) else view st i)"
proof (cases "array_get (planes st) i")
  case None
  then show ?thesis by (simp add: view_def dispose_False_simps)
next
  case (Some k)
  with assms have "k < length (meshes st)" by (simp add: wf_state_def refs_ok_def)
  with Some show ?thesis
    by (cases "k = r") (simp_all add: view_def dispose_False_simps disposed_def)
qed

lemma view_install:
  assumes "wf_state st"
  shows "view (install j M st) i =
    (if i = j then Some (M\<lparr>material := None\<rparr>, map_option (\<lambda>m. materials st ! m) (material M))
     else view st i)"
proof (cases "i = j")
  case True
  then show ?thesis by (simp add: view_def install_def array_get_set)
next
  case False
  show ?thesis
  proof (cases "array_get (planes st) i")
    case None
    with False show ?thesis by (simp add: view_def install_def array_get_set)
  next
    case (Some k)
    with assms have "k < length (meshes st)" by (simp add: wf_state_def refs_ok_def)
    with Some False show ?thesis by (simp add: view_def install_def array_get_set nth_append)
  qed
qed

text \<open>The handlers as compositions of these changes.\<close>

lemma snd_outcome:
  "snd (case t of (Inl e, x, s) \<Rightarrow> (Some e, s) | (Inr r, x, s) \<Rightarrow> (None, s)) = snd (snd t)"
  by (cases t) (simp split: sum.splits)

lemma onPlaneAdded_state:
  "snd (onPlaneAdded dec p c st) =
     (case closedContour (polygonDefinition p) of
        Inl err \<Rightarrow> st\<lparr>materials := materials st @
                     [\<lparr>materialName = ''mat'', alpha = 35 / 100, diffuseColor = c,
                       materialDisposed = False\<rparr>],
                   mat := Some (length (materials st))\<rparr>
      | Inr vs \<Rightarrow>
          install (plane_id p) (buildPolygon dec p vs (Some (length (materials st))))
            (st\<lparr>materials := materials st @
                     [\<lparr>materialName = ''mat'', alpha = 35 / 100, diffuseColor = c,
                       materialDisposed = False\<rparr>],
                   mat := Some (length (materials st))\<rparr>))"
  unfolding onPlaneAdded_def Let_def snd_outcome initPolygon_install ..

lemma onPlaneUpdated_state:
  assumes "array_get (planes st) (plane_id p) = Some r"
    and "material (meshes st ! r) = Some m"
  shows "snd (onPlaneUpdated dec p st) =
     (if some_falsy (polygonDefinition p)
      then dispose r False False (st\<lparr>mat := Some m\<rparr>)
      else (case closedContour (polygonDefinition p) of
              Inl err \<Rightarrow> dispose r False False (st\<lparr>mat := Some m\<rparr>)
            | Inr vs \<Rightarrow>
                install (plane_id p) (buildPolygon dec p vs (Some m))
                  (dispose r False False (st\<lparr>mat := Some m\<rparr>))))"
  unfolding onPlaneUpdated_def Let_def
  by (simp add: assms snd_outcome initPolygon_install dispose_False_simps)

lemma slot_material:
  assumes "wf_state st" and "array_get (planes st) i = Some r"
  shows "\<exists>m. material (meshes st ! r) = Some m \<and> m < length (materials st)"
proof -
  from assms have "r < length (meshes st)" by (simp add: wf_state_def refs_ok_def)
  with assms(1) show ?thesis unfolding wf_state_def mats_ok_def by blast
qed

lemma dispose_mat_simps:
  "array_get (planes (st\<lparr>mat := y\<rparr>)) i = array_get (planes st) i"
  "materials (dispose r a False (st\<lparr>mat := y\<rparr>)) = materials st"
  by (simp_all add: dispose_False_simps)

lemma wf_added: "wf_state st \<Longrightarrow> wf_state (snd (onPlaneAdded dec p c st))"
  unfolding onPlaneAdded_state
  by (auto split: sum.splits intro!: wf_alloc wf_install [where m = "length (materials st)"])

lemma wf_updated:
  assumes "wf_state st"
  shows "wf_state (snd (onPlaneUpdated dec p st))"
proof (cases "array_get (planes st) (plane_id p)")
  case None
  with assms show ?thesis by (simp add: onPlaneUpdated_def)
next
  case (Some r)
  from slot_material [OF assms Some] obtain m
    where m: "material (meshes st ! r) = Some m" "m < length (materials st)" by blast
  have d: "wf_state (dispose r False False (st\<lparr>mat := Some m\<rparr>))"
    by (intro wf_dispose wf_mat assms)
  have i: "wf_state (install (plane_id p) (buildPolygon dec p vs (Some m))
                      (dispose r False False (st\<lparr>mat := Some m\<rparr>)))" for vs
    by (rule wf_install [OF d, where m = m]) (simp_all add: m(2) dispose_mat_simps)
  show ?thesis
    unfolding onPlaneUpdated_state [OF Some m(1)]
    by (simp add: d i split: sum.splits)
qed

lemma wf_removed: "wf_state st \<Longrightarrow> wf_state (snd (onPlaneRemoved p st))"
  by (simp add: onPlaneRemoved_def wf_dispose split: option.splits)

lemma wf_step: "wf_state st \<Longrightarrow> e \<noteq> XRSessionInit \<Longrightarrow> wf_state (snd (step dec e st))"
  by (cases e) (simp_all add: wf_added wf_updated wf_removed)

lemma wf_run: "planeEvents es \<Longrightarrow> wf_state st \<Longrightarrow> wf_state (run dec es st)"
  by (induction es arbitrary: st) (simp_all add: planeEvents_def wf_step)

text \<open>A notification of another plane leaves the view of plane \<open>i\<close> as it is.\<close>

lemma other_added:
  assumes "wf_state st" and "plane_id p \<noteq> i"
  shows "view (snd (onPlaneAdded dec p c st)) i = view st i"
  unfolding onPlaneAdded_state using assms
  by (simp add: view_install wf_alloc view_alloc split: sum.splits)

lemma other_slot:
  assumes "wf_state st" and "array_get (planes st) j = Some r" and "j \<noteq> i"
  shows "array_get (planes st) i \<noteq> Some r"
  using assms unfolding wf_state_def slots_inj_def by blast

lemma other_updated:
  assumes w: "wf_state st" and n: "plane_id p \<noteq> i"
  shows "view (snd (onPlaneUpdated dec p st)) i = view st i"
proof (cases "array_get (planes st) (plane_id p)")
  case None
  then show ?thesis by (simp add: onPlaneUpdated_def)
next
  case (Some r)
  from slot_material [OF w Some] obtain m
    where m: "material (meshes st ! r) = Some m" "m < length (materials st)" by blast
  have d: "wf_state (dispose r False False (st\<lparr>mat := Some m\<rparr>))"
    by (intro wf_dispose wf_mat w)
  have v: "view (dispose r False False (st\<lparr>mat := Some m\<rparr>)) i = view st i"
    using other_slot [OF w Some n]
    by (simp add: view_dispose [OF wf_mat [OF w]] view_mat)
  show ?thesis
    unfolding onPlaneUpdated_state [OF Some m(1)] using n
    by (simp add: v view_install [OF d] split: sum.splits)
qed

lemma other_removed:
  assumes w: "wf_state st" and n: "plane_id p \<noteq> i"
  shows "view (snd (onPlaneRemoved (Some p) st)) i = view st i"
proof (cases "array_get (planes st) (plane_id p)")
  case None
  then show ?thesis by (simp add: onPlaneRemoved_def)
next
  case (Some r)
  with other_slot [OF w Some n] show ?thesis
    by (simp add: onPlaneRemoved_def view_dispose [OF w])
qed

lemma other_step:
  assumes "wf_state st" and "event_id e \<noteq> Some i" and "e \<noteq> XRSessionInit"
  shows "view (snd (step dec e st)) i = view st i"
proof (cases e)
  case (PlaneAdded p c)
  with assms show ?thesis by (simp add: other_added)
next
  case (PlaneUpdated p)
  with assms show ?thesis by (simp add: other_updated)
next
  case (PlaneRemoved po)
  show ?thesis
  proof (cases po)
    case None
    with PlaneRemoved show ?thesis by (simp add: onPlaneRemoved_def)
  next
    case (Some a)
    with PlaneRemoved assms show ?thesis by (simp add: other_removed)
  qed
next
  case XRSessionInit
  with assms show ?thesis by simp
qed

text \<open>A notification of plane \<open>i\<close> changes its view as a function of that view alone.\<close>

lemma same_added:
  assumes "wf_state st"
  shows "view (snd (onPlaneAdded dec p c st)) (plane_id p)
           = vstep dec (PlaneAdded p c) (view st (plane_id p))"
  unfolding onPlaneAdded_state using assms
  by (simp add: vstep_def view_install wf_alloc view_alloc buildPolygon_erase split: sum.splits)

lemma same_updated:
  assumes w: "wf_state st"
  shows "view (snd (onPlaneUpdated dec p st)) (plane_id p)
           = vstep dec (PlaneUpdated p) (view st (plane_id p))"
proof (cases "array_get (planes st) (plane_id p)")
  case None
  then show ?thesis by (simp add: onPlaneUpdated_def vstep_def view_def)
next
  case (Some r)
  from slot_material [OF w Some] obtain m
    where m: "material (meshes st ! r) = Some m" "m < length (materials st)" by blast
  have d: "wf_state (dispose r False False (st\<lparr>mat := Some m\<rparr>))"
    by (intro wf_dispose wf_mat w)
  have v0: "view st (plane_id p) = Some ((meshes st ! r)\<lparr>material := None\<rparr>, Some (materials st ! m))"
    using Some m by (simp add: view_def)
  have v1: "view (dispose r False False (st\<lparr>mat := Some m\<rparr>)) (plane_id p)
              = Some (disposed ((meshes st ! r)\<lparr>material := None\<rparr>, Some (materials st ! m)))"
    using Some by (simp add: view_dispose [OF wf_mat [OF w]] view_mat v0)
  show ?thesis
    unfolding onPlaneUpdated_state [OF Some m(1)] v0
    by (simp add: vstep_def v1 view_install [OF d] buildPolygon_erase dispose_mat_simps
          split: sum.splits)
qed

lemma same_removed:
  assumes w: "wf_state st"
  shows "view (snd (onPlaneRemoved (Some p) st)) (plane_id p)
           = vstep dec (PlaneRemoved (Some p)) (view st (plane_id p))"
proof (cases "array_get (planes st) (plane_id p)")
  case None
  then show ?thesis by (simp add: onPlaneRemoved_def vstep_def view_def)
next
  case (Some r)
  then show ?thesis
    by (simp add: onPlaneRemoved_def vstep_def view_dispose [OF w])
qed

lemma same_step:
  assumes "wf_state st" and "event_id e = Some i"
  shows "view (snd (step dec e st)) i = vstep dec e (view st i)"
proof (cases e)
  case (PlaneAdded p c)
  with assms show ?thesis using same_added [of st dec p c] by simp
next
  case (PlaneUpdated p)
  with assms show ?thesis using same_updated [of st dec p] by simp
next
  case (PlaneRemoved po)
  with assms show ?thesis using same_removed [of st _ dec] by (cases po) auto
next
  case XRSessionInit
  with assms show ?thesis by simp
qed

lemma view_run:
  "planeEvents es \<Longrightarrow> wf_state st \<Longrightarrow>
     view (run dec es st) i = fold (vstep dec) (eventsOf i es) (view st i)"
proof (induction es arbitrary: st)
  case Nil
  then show ?case by (simp add: eventsOf_def)
next
  case (Cons e es)
  from Cons.prems have pe: "planeEvents es" and ne: "e \<noteq> XRSessionInit"
    by (simp_all add: planeEvents_def)
  from Cons.prems(2) ne have w: "wf_state (snd (step dec e st))"
    by (rule wf_step)
  have ih: "view (run dec es (snd (step dec e st))) i
              = fold (vstep dec) (eventsOf i es) (view (snd (step dec e st)) i)"
    by (rule Cons.IH [OF pe w])
  show ?case
  proof (cases "event_id e = Some i")
    case True
    with ih same_step [OF Cons.prems(2) True, of dec] show ?thesis
      by (simp add: eventsOf_def)
  next
    case False
    with ih other_step [OF Cons.prems(2) False ne, of dec] show ?thesis
      by (simp add: eventsOf_def)
  qed
qed

text \<open>
  C10 (as stated, refuted). The variable \<^verbatim>\<open>mat\<close> is shared by the handlers of all planes:
  adding plane 1 writes it. And two sequences with the same notifications of plane 0 leave
  different entries for plane 0 once a session initialisation follows: alone, plane 0 is
  popped from \<^verbatim>\<open>_planes\<close>; with plane 2 added as well, the hole at index 1 stops the
  pop loop and the entry of plane 0 stays.
\<close>

theorem C10_counterexample:
  "mat initial = None \<and>
   mat (run dec0 [PlaneAdded (mkPlane 1 triangle) red] initial) = Some 0 \<and>
   eventsOf 0 [PlaneAdded (mkPlane 0 triangle) red, XRSessionInit]
     = eventsOf 0 [PlaneAdded (mkPlane 0 triangle) red, PlaneAdded (mkPlane 2 triangle) blue,
                   XRSessionInit] \<and>
   array_get (planes (run dec0 [PlaneAdded (mkPlane 0 triangle) red, XRSessionInit] initial)) 0
     = None \<and>
   array_get (planes (run dec0 [PlaneAdded (mkPlane 0 triangle) red,
                                PlaneAdded (mkPlane 2 triangle) blue, XRSessionInit] initial)) 0
     = Some 0"
  by (simp add: sample_defs code_defs eventsOf_def)

text \<open>
  C10 (amended). Two sequences of PlaneAdded, PlaneUpdated and PlaneRemoved notifications
  that contain the same notifications of plane \<open>i\<close> in the same order, each processed from
  the initial state, leave the same view of plane \<open>i\<close>: the same mesh data and the same
  material data.
\<close>

theorem C10_independence:
  assumes "planeEvents es1" and "planeEvents es2" and "eventsOf i es1 = eventsOf i es2"
  shows "view (run dec es1 initial) i = view (run dec es2 initial) i"
  by (simp add: view_run [OF assms(1) wf_initial] view_run [OF assms(2) wf_initial] assms(3))

text \<open>C10 (amended), at plane 0 with and without notifications of plane 1 around it.\<close>

theorem C10_independence_witness:
  "planeEvents [PlaneAdded (mkPlane 0 triangle) red, PlaneUpdated (mkPlane 0 twoPoints)] \<and>
   planeEvents [PlaneAdded (mkPlane 1 triangle) blue, PlaneAdded (mkPlane 0 triangle) red,
                PlaneUpdated (mkPlane 1 stale), PlaneUpdated (mkPlane 0 twoPoints),
                PlaneRemoved (Some (mkPlane 1 triangle))] \<and>
   eventsOf 0 [PlaneAdded (mkPlane 0 triangle) red, PlaneUpdated (mkPlane 0 twoPoints)]
     = eventsOf 0 [PlaneAdded (mkPlane 1 triangle) blue, PlaneAdded (mkPlane 0 triangle) red,
                   PlaneUpdated (mkPlane 1 stale), PlaneUpdated (mkPlane 0 twoPoints),
                   PlaneRemoved (Some (mkPlane 1 triangle))] \<and>
   view (run dec0 [PlaneAdded (mkPlane 0 triangle) red, PlaneUpdated (mkPlane 0 twoPoints)]
           initial) 0
     = view (run dec0 [PlaneAdded (mkPlane 1 triangle) blue, PlaneAdded (mkPlane 0 triangle) red,
                       PlaneUpdated (mkPlane 1 stale), PlaneUpdated (mkPlane 0 twoPoints),
                       PlaneRemoved (Some (mkPlane 1 triangle))] initial) 0"
proof -
  have a: "planeEvents [PlaneAdded (mkPlane 0 triangle) red, PlaneUpdated (mkPlane 0 twoPoints)]"
    by (simp add: planeEvents_def)
  have b: "planeEvents [PlaneAdded (mkPlane 1 triangle) blue, PlaneAdded (mkPlane 0 triangle) red,
                PlaneUpdated (mkPlane 1 stale), PlaneUpdated (mkPlane 0 twoPoints),
                PlaneRemoved (Some (mkPlane 1 triangle))]"
    by (simp add: planeEvents_def)
  have c: "eventsOf 0 [PlaneAdded (mkPlane 0 triangle) red, PlaneUpdated (mkPlane 0 twoPoints)]
     = eventsOf 0 [PlaneAdded (mkPlane 1 triangle) blue, PlaneAdded (mkPlane 0 triangle) red,
                   PlaneUpdated (mkPlane 1 stale), PlaneUpdated (mkPlane 0 twoPoints),
                   PlaneRemoved (Some (mkPlane 1 triangle))]"
    by (simp add: eventsOf_def mkPlane_def)
  from C10_independence [OF a b c, of dec0] a b c show ?thesis
    by (intro conjI)
qed

end
